theory Spec2Isabelle
  imports Complex_Main "HOL-Library.Word"
begin

section \<open>The dynamic array of Collections-C (src/src/array.c)\<close>

text \<open>
  A shallow embedding of \<^verbatim>\<open>array.c\<close> for an LP64 platform: \<^verbatim>\<open>size_t\<close> and
  \<^verbatim>\<open>void *\<close> are 64 bits wide, \<^verbatim>\<open>sizeof(void*)\<close> is 8, \<^verbatim>\<open>float\<close> is IEEE binary32
  rounded to nearest, ties to even. Every C function becomes a HOL function from the
  state it reads to the state it leaves. Undefined behaviour of the C program (an access
  outside the allocated block, a NULL dereference, a division by zero, an out-of-range
  conversion) is a value of its own, so it is never mistaken for a result.
\<close>

subsection \<open>Machine types\<close>

type_synonym size_t = "64 word"

text \<open>An element handle, \<^verbatim>\<open>void *\<close>. The null pointer is the zero word.\<close>

type_synonym ptr = "64 word"

definition NULL :: ptr where
  "NULL = 0"

definition sizeof_ptr :: size_t where
  "sizeof_ptr = 8"

text \<open>
  The ways in which a call can leave the defined behaviour of C.
\<close>

datatype ub = OutOfBounds | NullDeref | UninitRead | DivByZero | FloatRange

text \<open>
  The allocator functions an array carries are function pointers; only their identity is
  stored and copied. Whether a particular allocation succeeds is an argument of the
  function that performs it (named \<open>ok\<close> below), so every behaviour of an allocator is
  covered.
\<close>

datatype fnptr = NullFn | LibMalloc | LibCalloc | LibFree | UserFn nat

subsection \<open>The float type\<close>

text \<open>
  A \<^verbatim>\<open>float\<close> is a finite value, an infinity or a NaN. Finite values are carried as
  rationals; every arithmetic result is rounded to binary32 by \<open>f32_round\<close>. The type
  has more finite values than binary32 has, so a statement about all of its values covers
  every \<^verbatim>\<open>float\<close>. The two zeros are not distinguished: they compare equal and convert
  to the same integer.
\<close>

datatype cfloat = Finite rat | PInf | NInf | NaN

text \<open>Number of binary digits of a positive integer.\<close>

function bitlen :: "int \<Rightarrow> int" where
  "bitlen n = (if n \<le> 0 then 0 else 1 + bitlen (n div 2))"
  by pat_completeness auto
termination
  by (relation "measure nat") auto

declare bitlen.simps [simp del]

text \<open>The exponent \<open>e\<close> with \<open>2^e \<le> x < 2^(e+1)\<close>, for positive \<open>x\<close>.\<close>

definition ilog2 :: "rat \<Rightarrow> int" where
  "ilog2 x =
     (if 1 \<le> x then bitlen \<lfloor>x\<rfloor> - 1
      else - bitlen (\<lceil>1 / x\<rceil> - 1))"

text \<open>
  Rounding of a positive rational to 24 significant bits (the unit in the last place does
  not go below \<open>2^-149\<close>, the subnormal spacing), nearest value, ties to even.
\<close>

definition f32_round_pos :: "rat \<Rightarrow> rat" where
  "f32_round_pos x =
     (let e = max (ilog2 x) (- 126);
          ulp = power_int 2 (e - 23);
          q = x / ulp;
          n = \<lfloor>q\<rfloor>;
          r = q - of_int n;
          m = (if r < 1 / 2 then n
               else if 1 / 2 < r then n + 1
               else if even n then n else n + 1)
      in of_int m * ulp)"

definition f32_round :: "rat \<Rightarrow> cfloat" where
  "f32_round x =
     (if x = 0 then Finite 0
      else let y = f32_round_pos \<bar>x\<bar>
           in if 2 ^ 128 \<le> y then (if 0 < x then PInf else NInf)
              else Finite (sgn x * y))"

text \<open>Conversion of a \<^verbatim>\<open>size_t\<close> to \<^verbatim>\<open>float\<close>.\<close>

definition float_of_size :: "size_t \<Rightarrow> cfloat" where
  "float_of_size n = f32_round (of_int (uint n))"

text \<open>
  Conversion of a \<^verbatim>\<open>float\<close> to \<^verbatim>\<open>size_t\<close>: the fraction is discarded; the
  behaviour is undefined when the integral part is not a value of \<^verbatim>\<open>size_t\<close>.
\<close>

definition size_of_float :: "cfloat \<Rightarrow> ub + size_t" where
  "size_of_float f =
     (case f of
        Finite r \<Rightarrow>
          if - 1 < r \<and> r < 2 ^ 64
          then Inr (if r < 0 then 0 else word_of_int \<lfloor>r\<rfloor>)
          else Inl FloatRange
      | _ \<Rightarrow> Inl FloatRange)"

definition fsgn :: "cfloat \<Rightarrow> rat" where
  "fsgn f = (case f of Finite r \<Rightarrow> sgn r | PInf \<Rightarrow> 1 | NInf \<Rightarrow> - 1 | NaN \<Rightarrow> 0)"

definition float_mul :: "cfloat \<Rightarrow> cfloat \<Rightarrow> cfloat" where
  "float_mul x y =
     (if x = NaN \<or> y = NaN then NaN
      else case (x, y) of
        (Finite a, Finite b) \<Rightarrow> f32_round (a * b)
      | _ \<Rightarrow> (let s = fsgn x * fsgn y
              in if s = 0 then NaN else if 0 < s then PInf else NInf))"

text \<open>The comparison \<^verbatim>\<open><=\<close> on floats: false as soon as one side is a NaN.\<close>

fun float_le :: "cfloat \<Rightarrow> cfloat \<Rightarrow> bool" where
  "float_le NaN _ = False"
| "float_le _ NaN = False"
| "float_le NInf _ = True"
| "float_le _ PInf = True"
| "float_le (Finite a) (Finite b) = (a \<le> b)"
| "float_le _ _ = False"

subsection \<open>Memory blocks\<close>

text \<open>
  A buffer is a block of pointer-sized slots. A slot of memory that \<^verbatim>\<open>malloc\<close> returned
  and nobody wrote is indeterminate (\<open>None\<close>); a slot of \<^verbatim>\<open>calloc\<close> memory holds the
  null pointer. A buffer pointer is \<open>None\<close> when it is NULL.
\<close>

type_synonym slot = "ptr option"
type_synonym block = "slot list"

text \<open>\<^verbatim>\<open>malloc(bytes)\<close>, by the outcome \<open>ok\<close>.\<close>

definition malloc_block :: "bool \<Rightarrow> size_t \<Rightarrow> block option" where
  "malloc_block ok bytes =
     (if ok then Some (replicate (unat bytes div 8) None) else None)"

text \<open>
  \<^verbatim>\<open>calloc(n, sizeof(void*))\<close>, by the outcome \<open>ok\<close>; a request whose byte count does
  not fit \<^verbatim>\<open>size_t\<close> fails.
\<close>

definition calloc_block :: "bool \<Rightarrow> size_t \<Rightarrow> block option" where
  "calloc_block ok n =
     (if ok \<and> uint n * 8 < 2 ^ 64 then Some (replicate (unat n) (Some NULL)) else None)"

text \<open>Reading \<^verbatim>\<open>buffer[i]\<close> as a pointer.\<close>

definition load :: "block option \<Rightarrow> size_t \<Rightarrow> ub + ptr" where
  "load b i =
     (case b of
        None \<Rightarrow> Inl NullDeref
      | Some xs \<Rightarrow>
          if unat i < length xs
          then (case xs ! unat i of None \<Rightarrow> Inl UninitRead | Some p \<Rightarrow> Inr p)
          else Inl OutOfBounds)"

text \<open>The assignment \<^verbatim>\<open>buffer[i] = p\<close>.\<close>

definition store :: "block option \<Rightarrow> size_t \<Rightarrow> ptr \<Rightarrow> ub + block option" where
  "store b i p =
     (case b of
        None \<Rightarrow> Inl NullDeref
      | Some xs \<Rightarrow>
          if unat i < length xs then Inr (Some (xs[unat i := Some p]))
          else Inl OutOfBounds)"

text \<open>
  \<^verbatim>\<open>memcpy(dst, &src[off], bytes)\<close> between two different blocks: \<open>bytes div 8\<close>
  slots are copied to the front of \<open>dst\<close>.
\<close>

definition memcpy :: "block option \<Rightarrow> block option \<Rightarrow> size_t \<Rightarrow> size_t \<Rightarrow> ub + block option" where
  "memcpy dst src off bytes =
     (case dst of
        None \<Rightarrow> Inl NullDeref
      | Some ds \<Rightarrow>
         (case src of
            None \<Rightarrow> Inl NullDeref
          | Some ss \<Rightarrow>
              let n = unat bytes div 8 in
              if unat off + n \<le> length ss \<and> n \<le> length ds
              then Inr (Some (take n (drop (unat off) ss) @ drop n ds))
              else Inl OutOfBounds))"

text \<open>
  \<^verbatim>\<open>memmove(&buf[d], &buf[s], bytes)\<close> inside one block: the source slots are read
  before any is written.
\<close>

definition memmove :: "block option \<Rightarrow> size_t \<Rightarrow> size_t \<Rightarrow> size_t \<Rightarrow> ub + block option" where
  "memmove b d s bytes =
     (case b of
        None \<Rightarrow> Inl NullDeref
      | Some xs \<Rightarrow>
          let n = unat bytes div 8 in
          if unat s + n \<le> length xs \<and> unat d + n \<le> length xs
          then Inr (Some (take (unat d) xs @ take n (drop (unat s) xs) @ drop (unat d + n) xs))
          else Inl OutOfBounds)"

subsection \<open>The array structure and its configuration\<close>

record array =
  size_ar :: size_t
  capacity :: size_t
  exp_factor :: cfloat
  buffer :: "block option"
  mem_alloc :: fnptr
  mem_calloc :: fnptr
  mem_free :: fnptr

record array_conf =
  conf_exp_factor :: cfloat
  conf_capacity :: size_t
  conf_mem_alloc :: fnptr
  conf_mem_calloc :: fnptr
  conf_mem_free :: fnptr

definition DEFAULT_CAPACITY :: size_t where
  "DEFAULT_CAPACITY = 8"

definition DEFAULT_EXPANSION_FACTOR :: cfloat where
  "DEFAULT_EXPANSION_FACTOR = Finite 2"

text \<open>The structure as \<^verbatim>\<open>calloc(1, sizeof(Array))\<close> returns it: all bytes zero.\<close>

definition zeroed_array :: array where
  "zeroed_array =
     \<lparr>size_ar = 0, capacity = 0, exp_factor = Finite 0, buffer = None,
      mem_alloc = NullFn, mem_calloc = NullFn, mem_free = NullFn\<rparr>"

definition array_conf_init :: array_conf where
  "array_conf_init =
     \<lparr>conf_exp_factor = DEFAULT_EXPANSION_FACTOR, conf_capacity = DEFAULT_CAPACITY,
      conf_mem_alloc = LibMalloc, conf_mem_calloc = LibCalloc, conf_mem_free = LibFree\<rparr>"

text \<open>
  \<^verbatim>\<open>array_new_conf\<close>. \<open>M\<close> is \<^verbatim>\<open>MAX_ELEMENTS\<close>, a macro that \<^verbatim>\<open>array.c\<close> takes
  from the library's header; its value is left open, so it is an argument wherever the
  code uses it. \<open>ok_ar\<close> and \<open>ok_buf\<close> are the outcomes of the two allocations. The
  result is \<open>None\<close> for NULL. The quotient \<^verbatim>\<open>MAX_ELEMENTS / conf->capacity\<close> is a
  \<^verbatim>\<open>size_t\<close> division, evaluated only when the factor does not compare \<^verbatim>\<open><= 1\<close>. The
  buffer returned by the second allocation is not tested by the code.
\<close>

definition array_new_conf :: "size_t \<Rightarrow> bool \<Rightarrow> bool \<Rightarrow> array_conf \<Rightarrow> ub + array option" where
  "array_new_conf M ok_ar ok_buf conf =
     (if \<not> ok_ar then Inr None
      else
        let fill = (\<lambda>ar.
              Inr (Some (ar\<lparr>capacity := conf_capacity conf,
                            mem_alloc := conf_mem_alloc conf,
                            mem_calloc := conf_mem_calloc conf,
                            mem_free := conf_mem_free conf,
                            buffer := calloc_block ok_buf (conf_capacity conf)\<rparr>)))
        in
        if float_le (conf_exp_factor conf) (Finite 1)
        then fill (zeroed_array\<lparr>exp_factor := DEFAULT_EXPANSION_FACTOR\<rparr>)
        else if conf_capacity conf = 0 then Inl DivByZero
        else if float_le (float_of_size (M div conf_capacity conf)) (conf_exp_factor conf)
        then Inr None
        else fill (zeroed_array\<lparr>exp_factor := conf_exp_factor conf\<rparr>))"

definition array_new :: "size_t \<Rightarrow> bool \<Rightarrow> bool \<Rightarrow> ub + array option" where
  "array_new M ok_ar ok_buf = array_new_conf M ok_ar ok_buf array_conf_init"

subsection \<open>Growth, insertion, removal, access\<close>

text \<open>
  \<^verbatim>\<open>expand_capacity\<close>. The capacity field is assigned before the new buffer is
  requested; the request is for \<open>new_capacity\<close> slots, also when the capacity was set to
  \<open>M\<close>. \<open>ok\<close> is the outcome of the allocation.
\<close>

definition expand_capacity :: "size_t \<Rightarrow> bool \<Rightarrow> array \<Rightarrow> ub + (bool \<times> array)" where
  "expand_capacity M ok ar =
     (if capacity ar = M then Inr (False, ar)
      else
        case size_of_float (float_mul (float_of_size (capacity ar)) (exp_factor ar)) of
          Inl u \<Rightarrow> Inl u
        | Inr new_capacity \<Rightarrow>
            let ar1 = (if new_capacity \<le> capacity ar then ar\<lparr>capacity := M\<rparr>
                       else ar\<lparr>capacity := new_capacity\<rparr>);
                new_buff = malloc_block ok (new_capacity * sizeof_ptr)
            in if new_buff = None then Inr (False, ar1)
               else
                 case memcpy new_buff (buffer ar1) 0 (size_ar ar1 * sizeof_ptr) of
                   Inl u \<Rightarrow> Inl u
                 | Inr nb \<Rightarrow> Inr (True, ar1\<lparr>buffer := nb\<rparr>))"

text \<open>
  The shared prologue \<^verbatim>\<open>if (cond && !expand_capacity(ar)) return false;\<close>: the
  array goes on as it is when \<open>cond\<close> is false, grown when the growth succeeds.
\<close>

definition grow_if :: "bool \<Rightarrow> size_t \<Rightarrow> bool \<Rightarrow> array \<Rightarrow> ub + (bool \<times> array)" where
  "grow_if cond M ok ar = (if cond then expand_capacity M ok ar else Inr (True, ar))"

definition array_add :: "size_t \<Rightarrow> bool \<Rightarrow> array \<Rightarrow> ptr \<Rightarrow> ub + (bool \<times> array)" where
  "array_add M ok ar element =
     (case grow_if (capacity ar \<le> size_ar ar) M ok ar of
        Inl u \<Rightarrow> Inl u
      | Inr (False, ar1) \<Rightarrow> Inr (False, ar1)
      | Inr (True, ar1) \<Rightarrow>
          (case store (buffer ar1) (size_ar ar1) element of
             Inl u \<Rightarrow> Inl u
           | Inr b \<Rightarrow> Inr (True, ar1\<lparr>buffer := b, size_ar := size_ar ar1 + 1\<rparr>)))"

definition array_add_at :: "size_t \<Rightarrow> bool \<Rightarrow> array \<Rightarrow> ptr \<Rightarrow> size_t \<Rightarrow> ub + (bool \<times> array)" where
  "array_add_at M ok ar element index =
     (if size_ar ar - 1 < index then Inr (False, ar)
      else
        case grow_if (size_ar ar = capacity ar) M ok ar of
          Inl u \<Rightarrow> Inl u
        | Inr (False, ar1) \<Rightarrow> Inr (False, ar1)
        | Inr (True, ar1) \<Rightarrow>
            let shift = (size_ar ar1 - index) * sizeof_ptr in
            (case memmove (buffer ar1) (index + 1) index shift of
               Inl u \<Rightarrow> Inl u
             | Inr b \<Rightarrow>
                (case store b index element of
                   Inl u \<Rightarrow> Inl u
                 | Inr b' \<Rightarrow> Inr (True, ar1\<lparr>buffer := b', size_ar := size_ar ar1 + 1\<rparr>))))"

definition array_remove_at :: "array \<Rightarrow> size_t \<Rightarrow> ub + (ptr \<times> array)" where
  "array_remove_at ar index =
     (if size_ar ar \<le> index then Inr (NULL, ar)
      else
        case load (buffer ar) index of
          Inl u \<Rightarrow> Inl u
        | Inr e \<Rightarrow>
           (case (if index \<noteq> size_ar ar - 1
                  then memmove (buffer ar) index (index + 1) ((size_ar ar - index) * sizeof_ptr)
                  else Inr (buffer ar)) of
              Inl u \<Rightarrow> Inl u
            | Inr b \<Rightarrow> Inr (e, ar\<lparr>buffer := b, size_ar := size_ar ar - 1\<rparr>)))"

definition array_remove_last :: "array \<Rightarrow> ub + (ptr \<times> array)" where
  "array_remove_last ar = array_remove_at ar (size_ar ar - 1)"

definition array_get :: "array \<Rightarrow> size_t \<Rightarrow> ub + ptr" where
  "array_get ar index =
     (if size_ar ar \<le> index then Inr NULL else load (buffer ar) index)"

definition array_size :: "array \<Rightarrow> size_t" where
  "array_size ar = size_ar ar"

definition array_capacity :: "array \<Rightarrow> size_t" where
  "array_capacity ar = capacity ar"

subsection \<open>Subrange, copies, reversal, trimming\<close>

text \<open>
  \<^verbatim>\<open>array_subarray\<close>. The new structure comes zeroed from \<^verbatim>\<open>mem_calloc\<close>; the
  code assigns the three allocator fields, the size, the capacity and the buffer, and no
  other field. Neither allocation is tested.
\<close>

definition array_subarray :: "bool \<Rightarrow> bool \<Rightarrow> array \<Rightarrow> size_t \<Rightarrow> size_t \<Rightarrow> ub + array option" where
  "array_subarray ok_ar ok_buf ar b e =
     (if e < b \<or> size_ar ar < e then Inr None
      else if \<not> ok_ar then Inl NullDeref
      else
        let sub0 = zeroed_array\<lparr>mem_alloc := mem_alloc ar,
                                mem_calloc := mem_calloc ar,
                                mem_free := mem_free ar,
                                size_ar := e - b + 1\<rparr>;
            sub1 = sub0\<lparr>capacity := size_ar sub0\<rparr>;
            sub2 = sub1\<lparr>buffer := malloc_block ok_buf (capacity sub1 * sizeof_ptr)\<rparr>
        in case memcpy (buffer sub2) (buffer ar) b (size_ar sub2 * sizeof_ptr) of
             Inl u \<Rightarrow> Inl u
           | Inr nb \<Rightarrow> Inr (Some (sub2\<lparr>buffer := nb\<rparr>)))"

text \<open>
  \<^verbatim>\<open>array_copy_shallow\<close>. The structure comes from \<^verbatim>\<open>mem_alloc\<close> and every field
  is assigned.
\<close>

definition array_copy_shallow :: "bool \<Rightarrow> bool \<Rightarrow> array \<Rightarrow> ub + array" where
  "array_copy_shallow ok_ar ok_buf ar =
     (if \<not> ok_ar then Inl NullDeref
      else
        let copy = \<lparr>size_ar = size_ar ar, capacity = capacity ar, exp_factor = exp_factor ar,
                    buffer = calloc_block ok_buf (capacity ar),
                    mem_alloc = mem_alloc ar, mem_calloc = mem_calloc ar,
                    mem_free = mem_free ar\<rparr>
        in case memcpy (buffer copy) (buffer ar) 0 (size_ar copy * sizeof_ptr) of
             Inl u \<Rightarrow> Inl u
           | Inr nb \<Rightarrow> Inr (copy\<lparr>buffer := nb\<rparr>))"

text \<open>
  The loop of \<^verbatim>\<open>array_reverse\<close>: \<open>i\<close> runs up and \<open>j\<close> runs down while
  \<open>i < (size - 1) / 2\<close>, all in \<^verbatim>\<open>size_t\<close> arithmetic.
\<close>

function reverse_loop :: "size_t \<Rightarrow> size_t \<Rightarrow> size_t \<Rightarrow> block option \<Rightarrow> ub + block option" where
  "reverse_loop n i j buf =
     (if i < (n - 1) div 2
      then
        (case load buf i of
           Inl u \<Rightarrow> Inl u
         | Inr tmp \<Rightarrow>
            (case load buf j of
               Inl u \<Rightarrow> Inl u
             | Inr x \<Rightarrow>
                (case store buf i x of
                   Inl u \<Rightarrow> Inl u
                 | Inr buf1 \<Rightarrow>
                    (case store buf1 j tmp of
                       Inl u \<Rightarrow> Inl u
                     | Inr buf2 \<Rightarrow> reverse_loop n (i + 1) (j - 1) buf2))))
      else Inr buf)"
  by pat_completeness auto
termination
proof (relation "measure (\<lambda>(n, i, j, buf). unat ((n - 1) div 2) - unat i)")
  show "wf (measure (\<lambda>(n, i, j, buf). unat ((n - 1) div 2) - unat i))"
    by simp
next
  fix n i j :: size_t and buf buf2 :: "block option"
  assume lt: "i < (n - 1) div 2"
  have below: "unat i < unat ((n - 1) div 2)"
    using lt by (simp add: word_less_nat_alt)
  moreover have "unat ((n - 1) div 2) < 2 ^ 64"
    using unsigned_less [of "(n - 1) div 2"] by simp
  ultimately have "unat i + unat (1::size_t) < 2 ^ LENGTH(64)"
    by simp
  then have "unat (i + 1) = unat i + unat (1::size_t)"
    by (simp only: unat_add_lem)
  then show "((n, i + 1, j - 1, buf2), n, i, j, buf)
        \<in> measure (\<lambda>(n, i, j, buf). unat ((n - 1) div 2) - unat i)"
    using below by simp
qed

declare reverse_loop.simps [simp del]

definition array_reverse :: "array \<Rightarrow> ub + array" where
  "array_reverse ar =
     (case reverse_loop (size_ar ar) 0 (size_ar ar - 1) (buffer ar) of
        Inl u \<Rightarrow> Inl u
      | Inr b \<Rightarrow> Inr (ar\<lparr>buffer := b\<rparr>))"

text \<open>
  \<^verbatim>\<open>array_trim_capacity\<close>. The new buffer has \<open>size\<close> slots; the number of slots
  copied (the local variable \<^verbatim>\<open>size\<close> of the code, \<open>size_copy\<close> here) is \<open>size\<close>, or
  1 when the array is empty; the capacity becomes \<open>size\<close>.
\<close>

definition array_trim_capacity :: "bool \<Rightarrow> array \<Rightarrow> ub + array" where
  "array_trim_capacity ok ar =
     (if size_ar ar = capacity ar then Inr ar
      else
        let new_buff = calloc_block ok (size_ar ar);
            size_copy = (if size_ar ar < 1 then 1 else size_ar ar)
        in case memcpy new_buff (buffer ar) 0 (size_copy * sizeof_ptr) of
             Inl u \<Rightarrow> Inl u
           | Inr nb \<Rightarrow> Inr (ar\<lparr>buffer := nb, capacity := size_ar ar\<rparr>))"

subsection \<open>Sequences of calls\<close>

text \<open>
  A run of \<^verbatim>\<open>array_add\<close> calls, one per list entry: the entry gives the outcome of the
  allocation the call may need, and the element. The run stops at the first call that
  returns false; undefined behaviour in a call is the result of the run.
\<close>

fun array_add_all :: "size_t \<Rightarrow> array \<Rightarrow> (bool \<times> ptr) list \<Rightarrow> ub + (bool \<times> array)" where
  "array_add_all M a [] = Inr (True, a)"
| "array_add_all M a ((ok, e) # xs) =
     (case array_add M ok a e of
        Inl u \<Rightarrow> Inl u
      | Inr (False, a') \<Rightarrow> Inr (False, a')
      | Inr (True, a') \<Rightarrow> array_add_all M a' xs)"

text \<open>
  The array \<open>a\<close> holds the handles \<open>es\<close>: its size is their number and the first
  slots of its buffer carry them in order.
\<close>

definition holds :: "array \<Rightarrow> ptr list \<Rightarrow> bool" where
  "holds a es \<longleftrightarrow>
     unat (size_ar a) = length es \<and>
     (case buffer a of
        None \<Rightarrow> es = []
      | Some xs \<Rightarrow> length es \<le> length xs \<and> length xs < 2 ^ 64 \<and>
                  take (length es) xs = map Some es)"

subsection \<open>The cursor\<close>

text \<open>
  \<^verbatim>\<open>ArrayIter\<close> holds a pointer to the array and an index. The field \<open>ar\<close> of the
  model is the array the pointer leads to; an operation that changes the array through
  the cursor returns the cursor with the changed array.
\<close>

record array_iter =
  ar :: array
  index :: size_t


definition array_iter_has_next :: "array_iter \<Rightarrow> bool" where
  "array_iter_has_next iter = (index iter < size_ar (ar iter))"


text \<open>
  \<^verbatim>\<open>array_iter_add\<close>: the argument \<^verbatim>\<open>iter->index++\<close> passes the old index and
  increments the field before \<^verbatim>\<open>array_add_at\<close> runs, whatever it returns.
\<close>

definition array_iter_add :: "size_t \<Rightarrow> bool \<Rightarrow> array_iter \<Rightarrow> ptr \<Rightarrow> ub + (bool \<times> array_iter)" where
  "array_iter_add M ok iter element =
     (case array_add_at M ok (ar iter) element (index iter) of
        Inl u \<Rightarrow> Inl u
      | Inr (r, a) \<Rightarrow> Inr (r, \<lparr>ar = a, index = index iter + 1\<rparr>))"

subsection \<open>Sample states\<close>

text \<open>
  An array whose allocator triple is the C library's and whose growth factor is 2, with
  the given size, capacity and buffer.
\<close>

definition libc_array :: "size_t \<Rightarrow> size_t \<Rightarrow> block \<Rightarrow> array" where
  "libc_array n c xs =
     \<lparr>size_ar = n, capacity = c, exp_factor = Finite 2, buffer = Some xs,
      mem_alloc = LibMalloc, mem_calloc = LibCalloc, mem_free = LibFree\<rparr>"

text \<open>The array \<^verbatim>\<open>array_new()\<close> returns when both allocations succeed.\<close>

definition fresh_array :: array where
  "fresh_array = libc_array 0 8 (replicate 8 (Some NULL))"

text \<open>The fresh array after the handles 11, 22 and 33 were added.\<close>

definition abc_array :: array where
  "abc_array = libc_array 3 8 ([Some 11, Some 22, Some 33] @ replicate 5 (Some NULL))"

text \<open>A configuration with two slots, so that the third insertion has to grow.\<close>

definition small_conf :: array_conf where
  "small_conf =
     \<lparr>conf_exp_factor = Finite 2, conf_capacity = 2,
      conf_mem_alloc = LibMalloc, conf_mem_calloc = LibCalloc, conf_mem_free = LibFree\<rparr>"

text \<open>
  A configuration with one slot and factor 1.5, which \<^verbatim>\<open>array_new_conf\<close> accepts, and
  the arrays that arise from it.
\<close>

definition tight_conf :: array_conf where
  "tight_conf =
     \<lparr>conf_exp_factor = Finite (3 / 2), conf_capacity = 1,
      conf_mem_alloc = LibMalloc, conf_mem_calloc = LibCalloc, conf_mem_free = LibFree\<rparr>"

definition tight_array :: "size_t \<Rightarrow> size_t \<Rightarrow> block \<Rightarrow> array" where
  "tight_array n c xs = (libc_array n c xs)\<lparr>exp_factor := Finite (3 / 2)\<rparr>"

text \<open>A configuration with no slot and a factor that is replaced by the default.\<close>

definition empty_conf :: array_conf where
  "empty_conf =
     \<lparr>conf_exp_factor = Finite 1, conf_capacity = 0,
      conf_mem_alloc = LibMalloc, conf_mem_calloc = LibCalloc, conf_mem_free = LibFree\<rparr>"

section \<open>Properties\<close>

text \<open>
  In the closed statements below \<^verbatim>\<open>MAX_ELEMENTS\<close> is taken as \<^verbatim>\<open>(size_t) -2\<close>; the
  general theorems hold for every value of it.
\<close>

subsection \<open>Word arithmetic\<close>

lemma word_pred_less: "(w::size_t) \<noteq> 0 \<Longrightarrow> w - 1 < w"
  by (simp add: word_less_nat_alt unat_minus_one unat_gt_0)

lemma unat_div8: "unat (w::size_t) div 8 < 2 ^ 61"
proof -
  have "unat w < 2 ^ 64" using unsigned_less [of w] by simp
  then show ?thesis by simp
qed

lemma unat_times8:
  assumes "unat (n::size_t) < 2 ^ 61"
  shows "unat (n * 8) div 8 = unat n"
proof -
  have "unat n * unat (8::size_t) < 2 ^ LENGTH(64)" using assms by simp
  then have "unat (n * 8) = unat n * unat (8::size_t)"
    by (simp only: unat_mult_lem)
  then show ?thesis by simp
qed

lemma unat_inc:
  assumes "unat (n::size_t) < k" and "k < 2 ^ 64"
  shows "unat (n + 1) = Suc (unat n)"
proof -
  have "unat n + unat (1::size_t) < 2 ^ LENGTH(64)" using assms by simp
  then have "unat (n + 1) = unat n + unat (1::size_t)"
    by (simp only: unat_add_lem)
  then show ?thesis by simp
qed

subsection \<open>How the sample states arise\<close>

lemma fresh_array_built: "array_new (- 2) True True = Inr (Some fresh_array)"
  by code_simp

lemma abc_array_built:
  "array_add_all (- 2) fresh_array [(True, 11), (False, 22), (True, 33)] = Inr (True, abc_array)"
  by code_simp

subsection \<open>Appending keeps the handles in order\<close>

lemma new_conf_holds:
  assumes "array_new_conf M ok_ar ok_buf conf = Inr (Some a)"
  shows "holds a []"
proof -
  have "unat (conf_capacity conf) < 2 ^ 64"
    using unsigned_less [of "conf_capacity conf"] by simp
  then show ?thesis
    using assms
    by (auto simp: array_new_conf_def holds_def zeroed_array_def calloc_block_def Let_def
        split: if_splits)
qed

text \<open>
  What a successful growth guarantees: the size is kept, the new buffer is a fresh block
  of fewer than \<open>2^61\<close> slots, and it starts with the slots the byte count
  \<open>size * 8\<close> (computed in \<^verbatim>\<open>size_t\<close>) covers.
\<close>

lemma expand_success:
  assumes "expand_capacity M ok a = Inr (True, a')"
  shows "\<exists>xs ys. buffer a = Some xs \<and> buffer a' = Some ys \<and> size_ar a' = size_ar a \<and>
           length ys < 2 ^ 61 \<and>
           unat (size_ar a * 8) div 8 \<le> length xs \<and>
           take (unat (size_ar a * 8) div 8) ys = take (unat (size_ar a * 8) div 8) xs"
  using assms unat_div8
  by (auto simp: expand_capacity_def Let_def malloc_block_def memcpy_def sizeof_ptr_def
      split: if_splits sum.splits option.splits)

lemma store_holds:
  assumes h: "holds a es" and st: "store (buffer a) (size_ar a) e = Inr b"
  shows "holds (a\<lparr>buffer := b, size_ar := size_ar a + 1\<rparr>) (es @ [e])"
proof -
  obtain xs where xs: "buffer a = Some xs" and lt: "unat (size_ar a) < length xs"
    and b: "b = Some (xs[unat (size_ar a) := Some e])"
    using st by (auto simp: store_def split: option.splits if_splits)
  from h xs have n: "unat (size_ar a) = length es" and len: "length xs < 2 ^ 64"
    and tk: "take (length es) xs = map Some es"
    by (simp_all add: holds_def)
  have inc: "unat (size_ar a + 1) = Suc (length es)"
    using unat_inc [OF lt len] n by simp
  have "take (Suc (length es)) (xs[length es := Some e]) = map Some es @ [Some e]"
    using lt n tk by (simp add: take_Suc_conv_app_nth)
  then show ?thesis
    using inc lt n len b by (simp add: holds_def)
qed

lemma add_holds:
  assumes h: "holds a es" and ad: "array_add M ok a e = Inr (True, a')"
  shows "holds a' (es @ [e])"
proof (cases "capacity a \<le> size_ar a")
  case False
  then obtain b where "store (buffer a) (size_ar a) e = Inr b"
    and "a' = a\<lparr>buffer := b, size_ar := size_ar a + 1\<rparr>"
    using ad by (auto simp: array_add_def grow_if_def split: sum.splits)
  then show ?thesis using store_holds [OF h] by simp
next
  case True
  then obtain a1 b where ex: "expand_capacity M ok a = Inr (True, a1)"
    and st: "store (buffer a1) (size_ar a1) e = Inr b"
    and a': "a' = a1\<lparr>buffer := b, size_ar := size_ar a1 + 1\<rparr>"
    using ad by (auto simp: array_add_def grow_if_def split: sum.splits bool.splits)
  from expand_success [OF ex] obtain xs ys where
    xs: "buffer a = Some xs" and ys: "buffer a1 = Some ys" and sz: "size_ar a1 = size_ar a"
    and len: "length ys < 2 ^ 61"
    and tk: "take (unat (size_ar a * 8) div 8) ys = take (unat (size_ar a * 8) div 8) xs"
    by blast
  from st ys have lt: "unat (size_ar a1) < length ys"
    by (auto simp: store_def split: if_splits)
  then have "unat (size_ar a) < 2 ^ 61" using len sz by simp
  then have n: "unat (size_ar a * 8) div 8 = unat (size_ar a)" by (rule unat_times8)
  from h xs have hn: "unat (size_ar a) = length es"
    and htk: "take (length es) xs = map Some es"
    by (simp_all add: holds_def)
  have "holds a1 es"
    using sz ys hn htk tk n lt len by (simp add: holds_def)
  then show ?thesis using store_holds [OF _ st] a' by simp
qed

lemma add_all_holds:
  "holds a es \<Longrightarrow> array_add_all M a xs = Inr (True, a') \<Longrightarrow> holds a' (es @ map snd xs)"
proof (induction xs arbitrary: a es)
  case Nil
  then show ?case by simp
next
  case (Cons x xs)
  obtain ok e where x: "x = (ok, e)" by (cases x)
  from Cons.prems(2) x obtain a1 where a1: "array_add M ok a e = Inr (True, a1)"
    and rest: "array_add_all M a1 xs = Inr (True, a')"
    by (auto split: sum.splits bool.splits)
  have "holds a1 (es @ [e])" using add_holds [OF Cons.prems(1) a1] .
  from Cons.IH [OF this rest] show ?case using x by simp
qed

lemma get_holds:
  assumes h: "holds a es" and i: "i < length es"
  shows "array_get a (of_nat i) = Inr (es ! i)"
proof -
  from h i obtain xs where xs: "buffer a = Some xs"
    by (cases "buffer a") (auto simp: holds_def)
  from h xs have n: "unat (size_ar a) = length es" and le: "length es \<le> length xs"
    and len: "length xs < 2 ^ 64" and tk: "take (length es) xs = map Some es"
    by (simp_all add: holds_def)
  have "i < 2 ^ LENGTH(64)" using i le len by simp
  then have ui: "unat (of_nat i :: size_t) = i"
    by (rule of_nat_inverse [OF refl])
  have "\<not> size_ar a \<le> of_nat i"
    using ui n i by (simp add: word_le_nat_alt)
  moreover have "xs ! i = Some (es ! i)"
  proof -
    have "xs ! i = take (length es) xs ! i" using i by simp
    then show ?thesis using tk i by simp
  qed
  ultimately show ?thesis
    using xs ui i le by (simp add: array_get_def load_def)
qed

text \<open>
  As long as every call of a run returns true without leaving the defined behaviour of
  C, the size is the number of calls and \<^verbatim>\<open>array_get\<close> at \<open>i\<close> returns the handle
  of the \<open>i\<close>-th call, whatever the configuration, the value of \<^verbatim>\<open>MAX_ELEMENTS\<close> and
  the allocator's answers.
\<close>

lemma array_add_all_defined_run:
  assumes "array_new_conf M ok_ar ok_buf conf = Inr (Some a0)"
    and "array_add_all M a0 xs = Inr (True, a)"
  shows "unat (array_size a) = length xs \<and>
         (\<forall>i < length xs. array_get a (of_nat i) = Inr (snd (xs ! i)))"
proof -
  have "holds a0 []" using assms(1) by (rule new_conf_holds)
  from add_all_holds [OF this assms(2)] have h: "holds a (map snd xs)" by simp
  then have "unat (array_size a) = length xs"
    by (simp add: holds_def array_size_def)
  moreover have "\<forall>i < length xs. array_get a (of_nat i) = Inr (snd (xs ! i))"
    using get_holds [OF h] by simp
  ultimately show ?thesis by simp
qed

text \<open>
  Such a run: two slots, factor 2, three insertions of which the third grows the buffer
  to four slots.
\<close>

lemma array_add_all_defined_run_example:
  "array_new_conf (- 2) True True small_conf =
     Inr (Some (libc_array 0 2 [Some NULL, Some NULL])) \<and>
   array_add_all (- 2) (libc_array 0 2 [Some NULL, Some NULL])
       [(False, 11), (False, 22), (True, 33)] =
     Inr (True, libc_array 3 4 [Some 11, Some 22, Some 33, None]) \<and>
   unat (array_size (libc_array 3 4 [Some 11, Some 22, Some 33, None])) = 3 \<and>
   array_get (libc_array 3 4 [Some 11, Some 22, Some 33, None]) 0 = Inr 11 \<and>
   array_get (libc_array 3 4 [Some 11, Some 22, Some 33, None]) 1 = Inr 22 \<and>
   array_get (libc_array 3 4 [Some 11, Some 22, Some 33, None]) 2 = Inr 33"
proof -
  have new: "array_new_conf (- 2) True True small_conf =
      Inr (Some (libc_array 0 2 [Some NULL, Some NULL]))"
    by code_simp
  have run: "array_add_all (- 2) (libc_array 0 2 [Some NULL, Some NULL])
      [(False, 11), (False, 22), (True, 33)] =
      Inr (True, libc_array 3 4 [Some 11, Some 22, Some 33, None])"
    by code_simp
  from array_add_all_defined_run [OF new run]
  have sz: "unat (array_size (libc_array 3 4 [Some 11, Some 22, Some 33, None])) = 3"
    and get: "\<And>i. i < 3 \<Longrightarrow>
      array_get (libc_array 3 4 [Some 11, Some 22, Some 33, None]) (of_nat i) =
      Inr (snd ([(False, 11), (False, 22), (True, 33)] ! i))"
    by simp_all
  from get [of 0] get [of 1] get [of 2] new run sz show ?thesis
    by simp
qed

text \<open>
  A fresh array without a slot: the first \<^verbatim>\<open>array_add\<close> grows to \<open>0 * 2 = 0\<close> slots,
  sets the capacity to \<^verbatim>\<open>MAX_ELEMENTS\<close> and stores into the empty block.
\<close>

lemma array_add_no_slot:
  "array_new_conf (- 2) True True empty_conf = Inr (Some (libc_array 0 0 [])) \<and>
   expand_capacity (- 2) True (libc_array 0 0 []) = Inr (True, libc_array 0 (- 2) []) \<and>
   array_add (- 2) True (libc_array 0 0 []) 11 = Inl OutOfBounds"
  by code_simp

text \<open>
  Claim C1. The claim is that on a freshly constructed array every run of
  \<^verbatim>\<open>array_add\<close> calls that return true gives a size equal to the number of calls and
  \<^verbatim>\<open>array_get\<close> at \<open>i\<close> the \<open>i\<close>-th handle. With one slot and factor 1.5 the second
  call grows the array: \<open>new_capacity\<close> is \<open>(size_t) (1 * 1.5) = 1\<close>, not above the
  capacity, so the capacity is set to \<^verbatim>\<open>MAX_ELEMENTS\<close> while the buffer requested has
  \<open>new_capacity = 1\<close> slot. \<^verbatim>\<open>expand_capacity\<close> returns true, and \<^verbatim>\<open>array_add\<close>
  stores the second handle at index 1, past the end of the block, before it returns
  true: the run leaves the defined behaviour of C.
\<close>

theorem array_add_stores_past_grown_buffer:
  "array_new_conf (- 2) True True tight_conf = Inr (Some (tight_array 0 1 [Some NULL])) \<and>
   array_add (- 2) True (tight_array 0 1 [Some NULL]) 11 =
     Inr (True, tight_array 1 1 [Some 11]) \<and>
   expand_capacity (- 2) True (tight_array 1 1 [Some 11]) =
     Inr (True, tight_array 1 (- 2) [Some 11]) \<and>
   array_add (- 2) True (tight_array 1 1 [Some 11]) 22 = Inl OutOfBounds \<and>
   array_add_all (- 2) (tight_array 0 1 [Some NULL]) [(True, 11), (True, 22)] =
     Inl OutOfBounds"
  by code_simp

subsection \<open>Growth when the allocator fails\<close>

text \<open>
  Whenever the allocator is reached and fails, the call returns false with the old
  buffer and size and a capacity different from the one before.
\<close>

lemma expand_capacity_failure_changes_capacity:
  assumes "expand_capacity M False a = Inr (r, a')" and "capacity a \<noteq> M"
  shows "r = False \<and> capacity a' \<noteq> capacity a \<and> buffer a' = buffer a \<and>
         size_ar a' = size_ar a"
  using assms
  by (auto simp: expand_capacity_def Let_def malloc_block_def split: sum.splits if_splits)

text \<open>
  Claim C2. The claim is that a growth step that fails in the allocator leaves size,
  capacity and elements as they were. In the code the capacity field is written before
  the new buffer is requested, and the failure path returns without writing it back: a
  full array of two slots has capacity 4 after the failed growth while its buffer still
  has two slots, \<^verbatim>\<open>array_add\<close> returns false with that state, and the next
  \<^verbatim>\<open>array_add\<close> sees room and writes past the end of the buffer.
\<close>

theorem expand_capacity_failure_keeps_new_capacity:
  "expand_capacity (- 2) False (libc_array 2 2 [Some 11, Some 22]) =
     Inr (False, libc_array 2 4 [Some 11, Some 22]) \<and>
   array_add (- 2) False (libc_array 2 2 [Some 11, Some 22]) 33 =
     Inr (False, libc_array 2 4 [Some 11, Some 22]) \<and>
   array_add (- 2) True (libc_array 2 4 [Some 11, Some 22]) 33 = Inl OutOfBounds"
  by code_simp

subsection \<open>Positional insertion\<close>

text \<open>
  Claim C3. The claim is that \<^verbatim>\<open>array_add_at\<close> succeeds only for an index below the
  size, so never on an empty array, and that a failure changes nothing. On the empty
  array \<open>size - 1\<close> wraps around to the largest \<^verbatim>\<open>size_t\<close>, no index is above it, and
  the insertion at index 0 goes through: the call returns true and the size becomes 1.
  A failure by a failed growth leaves the capacity changed, as for claim C2.
\<close>

theorem array_add_at_empty_succeeds:
  "size_ar fresh_array = 0 \<and>
   array_add_at (- 2) True fresh_array 11 0 =
     Inr (True, libc_array 1 8 (Some 11 # replicate 7 (Some NULL))) \<and>
   array_add_at (- 2) False (libc_array 2 2 [Some 11, Some 22]) 33 1 =
     Inr (False, libc_array 2 4 [Some 11, Some 22])"
  by code_simp

subsection \<open>Subrange extraction\<close>

text \<open>
  Claim C4. The claim is that \<^verbatim>\<open>array_subarray\<close> returns NULL unless
  \<open>b \<le> e < size\<close>. The code rejects \<open>e > size\<close> only, so \<open>e = size\<close> is accepted: on
  the array of the three handles 11, 22, 33 the range from 0 to 3 yields an array of size
  4 whose last element is the slot behind the live ones.
\<close>

theorem array_subarray_accepts_end_at_size:
  "size_ar abc_array = 3 \<and>
   array_subarray True True abc_array 0 3 =
     Inr (Some \<lparr>size_ar = 4, capacity = 4, exp_factor = Finite 0,
                 buffer = Some [Some 11, Some 22, Some 33, Some NULL],
                 mem_alloc = LibMalloc, mem_calloc = LibCalloc, mem_free = LibFree\<rparr>)"
  by code_simp

subsection \<open>Reversal\<close>

text \<open>On the empty array the loop bound wraps around and the first swap reads slot \<open>2^64 - 1\<close>.\<close>

lemma array_reverse_empty: "array_reverse fresh_array = Inl OutOfBounds"
  by (simp add: array_reverse_def fresh_array_def libc_array_def reverse_loop.simps [of 0]
      load_def word_less_nat_alt unat_div unsigned_minus_1_eq_mask mask_eq_exp_minus_1)

text \<open>
  Claim C5. The claim is that \<^verbatim>\<open>array_reverse\<close> leaves at index \<open>i\<close> the element
  that was at \<open>n - 1 - i\<close>. The loop runs while \<open>i < (size - 1) / 2\<close>, which is one
  swap short when the size is even: two elements stay as they are, and of four elements
  only the outer pair is exchanged.
\<close>

theorem array_reverse_even_size:
  "array_reverse (libc_array 2 2 [Some 11, Some 22]) =
     Inr (libc_array 2 2 [Some 11, Some 22]) \<and>
   array_reverse (libc_array 4 4 [Some 11, Some 22, Some 33, Some 44]) =
     Inr (libc_array 4 4 [Some 44, Some 22, Some 33, Some 11])"
  by code_simp

subsection \<open>Trimming\<close>

text \<open>
  Claim C6. The claim is that after \<^verbatim>\<open>array_trim_capacity\<close> the capacity is
  \<open>max(size, 1)\<close>, so 1 for an empty array. For the empty array of capacity 8 the code
  requests a buffer of \<open>size = 0\<close> slots and copies one slot into it, which is outside
  the block (or through NULL when the request fails); the capacity it then assigns is
  \<open>size\<close>, that is 0.
\<close>

theorem array_trim_capacity_empty:
  "size_ar fresh_array = 0 \<and> capacity fresh_array = 8 \<and>
   array_trim_capacity True fresh_array = Inl OutOfBounds \<and>
   array_trim_capacity False fresh_array = Inl NullDeref"
  by code_simp

subsection \<open>The growth factor\<close>

lemma array_subarray_exp_factor:
  "array_subarray ok_ar ok_buf a b e = Inr (Some s) \<Longrightarrow> exp_factor s = Finite 0"
  by (auto simp: array_subarray_def Let_def zeroed_array_def split: if_splits sum.splits)

text \<open>The copy takes the factor of the original.\<close>

lemma array_copy_shallow_exp_factor:
  "array_copy_shallow ok_ar ok_buf a = Inr c \<Longrightarrow> exp_factor c = exp_factor a"
  by (auto simp: array_copy_shallow_def Let_def split: if_splits sum.splits)

text \<open>
  The constructor replaces a factor that compares \<^verbatim>\<open><= 1\<close> by 2 and takes every other
  factor it does not reject as it is; a NaN compares false both times and is taken.
\<close>

lemma array_new_conf_exp_factor:
  assumes "array_new_conf M ok_ar ok_buf conf = Inr (Some a)"
  shows "exp_factor a =
     (if float_le (conf_exp_factor conf) (Finite 1) then Finite 2 else conf_exp_factor conf)"
  using assms
  by (auto simp: array_new_conf_def Let_def zeroed_array_def DEFAULT_EXPANSION_FACTOR_def
      split: if_splits)

lemma array_new_conf_nan:
  "array_new_conf (- 2) True True (small_conf\<lparr>conf_exp_factor := NaN\<rparr>) =
     Inr (Some ((libc_array 0 2 [Some NULL, Some NULL])\<lparr>exp_factor := NaN\<rparr>))"
  by code_simp

text \<open>
  Claim C7. The claim is that every array an operation produces has a growth factor above
  1. \<^verbatim>\<open>array_subarray\<close> takes the new structure zeroed from \<^verbatim>\<open>mem_calloc\<close> and
  never assigns \<^verbatim>\<open>exp_factor\<close>: the subarray of an array with factor 2 has factor 0,
  which is at most 1.
\<close>

theorem array_subarray_zero_exp_factor:
  "exp_factor abc_array = Finite 2 \<and>
   array_subarray True True abc_array 0 1 =
     Inr (Some \<lparr>size_ar = 2, capacity = 2, exp_factor = Finite 0,
                 buffer = Some [Some 11, Some 22],
                 mem_alloc = LibMalloc, mem_calloc = LibCalloc, mem_free = LibFree\<rparr>) \<and>
   float_le (Finite 0) (Finite 1)"
  by code_simp

subsection \<open>Removing the last element of an empty array\<close>

text \<open>
  Claim C8. On an empty array \<^verbatim>\<open>array_remove_last\<close> returns NULL and leaves the array
  as it is: the index \<open>size - 1\<close> wraps around to the largest \<^verbatim>\<open>size_t\<close>, which the
  bounds check of \<^verbatim>\<open>array_remove_at\<close> rejects.
\<close>

theorem array_remove_last_empty:
  "size_ar a = 0 \<Longrightarrow> array_remove_last a = Inr (NULL, a)"
  by (simp add: array_remove_last_def array_remove_at_def)

text \<open>Claim C8 at the array \<^verbatim>\<open>array_new()\<close> returns.\<close>

theorem array_remove_last_empty_witness:
  "size_ar fresh_array = 0 \<and> array_remove_last fresh_array = Inr (NULL, fresh_array)"
proof -
  have "size_ar fresh_array = 0"
    by (simp add: fresh_array_def libc_array_def)
  then show ?thesis
    using array_remove_last_empty [of fresh_array] by simp
qed

subsection \<open>Insertion through the cursor\<close>

lemma add_at_reject: "size_ar a - 1 < i \<Longrightarrow> array_add_at M ok a e i = Inr (False, a)"
  by (simp add: array_add_at_def)


text \<open>The insertion through the cursor into a full array, with a successful growth.\<close>

lemma array_iter_add_grows:
  "array_iter_add (- 2) True \<lparr>ar = libc_array 3 3 [Some 11, Some 22, Some 33], index = 1\<rparr> 44 =
     Inr (True, \<lparr>ar = libc_array 4 6 [Some 11, Some 44, Some 22, Some 33, None, None],
                 index = 2\<rparr>)"
  by code_simp


text \<open>
  Claim C10. When the cursor of a non-empty array has yielded every element, so that its
  index equals the size, \<^verbatim>\<open>array_iter_add\<close> returns false and the array is as before,
  yet the index of the cursor is one higher.
\<close>

theorem array_iter_add_exhausted:
  assumes "size_ar (ar it) \<noteq> 0" and "index it = size_ar (ar it)"
  shows "array_iter_add M ok it e = Inr (False, it\<lparr>index := index it + 1\<rparr>)"
proof -
  have "size_ar (ar it) - 1 < index it"
    unfolding assms(2) using assms(1) by (rule word_pred_less)
  then have "array_add_at M ok (ar it) e (index it) = Inr (False, ar it)"
    by (rule add_at_reject)
  then show ?thesis
    by (simp add: array_iter_add_def)
qed

text \<open>Claim C10 at the cursor that has run through the three-element sample array.\<close>

theorem array_iter_add_exhausted_witness:
  "size_ar (ar \<lparr>ar = abc_array, index = 3\<rparr>) \<noteq> 0 \<and>
   index \<lparr>ar = abc_array, index = 3\<rparr> = size_ar (ar \<lparr>ar = abc_array, index = 3\<rparr>) \<and>
   array_iter_add (- 2) True \<lparr>ar = abc_array, index = 3\<rparr> 44 =
     Inr (False, \<lparr>ar = abc_array, index = 4\<rparr>)"
proof -
  have h1: "size_ar (ar \<lparr>ar = abc_array, index = 3\<rparr>) \<noteq> 0"
    by (simp add: abc_array_def libc_array_def)
  have h2: "index \<lparr>ar = abc_array, index = 3\<rparr> = size_ar (ar \<lparr>ar = abc_array, index = 3\<rparr>)"
    by (simp add: abc_array_def libc_array_def)
  from array_iter_add_exhausted [OF h1 h2, of "- 2" True 44] h1 h2
  show ?thesis by simp
qed

end
